theory Spec2Isabelle
  imports Main
begin

unbundle bit_operations_syntax

section \<open>Category model (enums of namingConventionRule.ts)\<close>

text \<open>
  The TypeScript enums are objects indexed by name. A lookup with a name that is not a
  member yields \<open>undefined\<close> (or, through the reverse mapping of a numeric enum, a string);
  neither is a number. Such a value is \<open>None\<close> here. The bitwise operators of JavaScript
  convert it to 0, subtraction turns it into NaN. All numbers of this file stay far below
  \<open>2 ^ 31\<close> in absolute value, where the 32-bit operators of JavaScript agree with the
  bit operations on \<open>int\<close>.
\<close>

type_synonym jsnum = "int option"

definition ToInt32 :: "jsnum \<Rightarrow> int" where
  "ToInt32 v = (case v of None \<Rightarrow> 0 | Some n \<Rightarrow> n)"

definition Types_default :: int where "Types_default = - 1"
definition Types_variable :: int where "Types_variable = 1"
definition Types_function :: int where "Types_function = push_bit 1 1"
definition Types_parameter :: int where "Types_parameter = push_bit 2 1"
definition Types_member :: int where "Types_member = push_bit 3 1"
definition Types_property :: int where "Types_property = push_bit 4 1"
definition Types_method :: int where "Types_method = push_bit 5 1"
definition Types_type :: int where "Types_type = push_bit 6 1"
definition Types_class :: int where "Types_class = push_bit 7 1"
definition Types_interface :: int where "Types_interface = push_bit 8 1"
definition Types_typeAlias :: int where "Types_typeAlias = push_bit 9 1"
definition Types_genericTypeParameter :: int where "Types_genericTypeParameter = push_bit 10 1"
definition Types_enum :: int where "Types_enum = push_bit 11 1"
definition Types_enumMember :: int where "Types_enumMember = push_bit 12 1"

definition Types_table :: "(string \<times> int) list" where
  "Types_table =
    [(''default'', Types_default), (''variable'', Types_variable),
     (''function'', Types_function), (''parameter'', Types_parameter),
     (''member'', Types_member), (''property'', Types_property),
     (''method'', Types_method), (''type'', Types_type), (''class'', Types_class),
     (''interface'', Types_interface), (''typeAlias'', Types_typeAlias),
     (''genericTypeParameter'', Types_genericTypeParameter), (''enum'', Types_enum),
     (''enumMember'', Types_enumMember)]"

text \<open>\<open>Types[name]\<close>, as a number.\<close>

definition Types :: "string \<Rightarrow> jsnum" where
  "Types name = map_of Types_table name"

definition TypeSelector_variable :: int where
  "TypeSelector_variable = Types_variable"
definition TypeSelector_function :: int where
  "TypeSelector_function = TypeSelector_variable OR Types_function"
definition TypeSelector_parameter :: int where
  "TypeSelector_parameter = TypeSelector_variable OR Types_parameter"
definition TypeSelector_property :: int where
  "TypeSelector_property = Types_member OR Types_property"
definition TypeSelector_parameterProperty :: int where
  "TypeSelector_parameterProperty = TypeSelector_parameter OR TypeSelector_property"
definition TypeSelector_method :: int where
  "TypeSelector_method = Types_member OR Types_method"
definition TypeSelector_class :: int where
  "TypeSelector_class = Types_type OR Types_class"
definition TypeSelector_interface :: int where
  "TypeSelector_interface = Types_type OR Types_interface"
definition TypeSelector_typeAlias :: int where
  "TypeSelector_typeAlias = Types_type OR Types_typeAlias"
definition TypeSelector_genericTypeParameter :: int where
  "TypeSelector_genericTypeParameter = Types_type OR Types_genericTypeParameter"
definition TypeSelector_enum :: int where
  "TypeSelector_enum = Types_type OR Types_enum"
definition TypeSelector_enumMember :: int where
  "TypeSelector_enumMember = TypeSelector_property OR Types_enumMember"

text \<open>
  \<open>TypeSelector[value]\<close>: the reverse mapping of the numeric enum, used for the
  message prefix. A number that is no member gives \<open>undefined\<close>, which string
  concatenation prints as the word.
\<close>

definition TypeSelector_table :: "(int \<times> string) list" where
  "TypeSelector_table =
    [(TypeSelector_variable, ''variable''), (TypeSelector_function, ''function''),
     (TypeSelector_parameter, ''parameter''), (TypeSelector_property, ''property''),
     (TypeSelector_parameterProperty, ''parameterProperty''),
     (TypeSelector_method, ''method''), (TypeSelector_class, ''class''),
     (TypeSelector_interface, ''interface''), (TypeSelector_typeAlias, ''typeAlias''),
     (TypeSelector_genericTypeParameter, ''genericTypeParameter''),
     (TypeSelector_enum, ''enum''), (TypeSelector_enumMember, ''enumMember'')]"

definition TypeSelector_name :: "int \<Rightarrow> string" where
  "TypeSelector_name v =
    (case map_of TypeSelector_table v of None \<Rightarrow> ''undefined'' | Some n \<Rightarrow> n)"

definition Modifiers_const :: int where "Modifiers_const = 1"
definition Modifiers_readonly :: int where "Modifiers_readonly = Modifiers_const"
definition Modifiers_static :: int where "Modifiers_static = push_bit 1 1"
definition Modifiers_public :: int where "Modifiers_public = push_bit 2 1"
definition Modifiers_protected :: int where "Modifiers_protected = push_bit 3 1"
definition Modifiers_private :: int where "Modifiers_private = push_bit 4 1"
definition Modifiers_global :: int where "Modifiers_global = push_bit 5 1"
definition Modifiers_local :: int where "Modifiers_local = push_bit 6 1"
definition Modifiers_abstract :: int where "Modifiers_abstract = push_bit 7 1"
definition Modifiers_export :: int where "Modifiers_export = push_bit 8 1"
definition Modifiers_import :: int where "Modifiers_import = push_bit 9 1"
definition Modifiers_rename :: int where "Modifiers_rename = push_bit 10 1"

definition Modifiers_table :: "(string \<times> int) list" where
  "Modifiers_table =
    [(''const'', Modifiers_const), (''readonly'', Modifiers_readonly),
     (''static'', Modifiers_static), (''public'', Modifiers_public),
     (''protected'', Modifiers_protected), (''private'', Modifiers_private),
     (''global'', Modifiers_global), (''local'', Modifiers_local),
     (''abstract'', Modifiers_abstract), (''export'', Modifiers_export),
     (''import'', Modifiers_import), (''rename'', Modifiers_rename)]"

text \<open>\<open>Modifiers[name]\<close>, as a number.\<close>

definition Modifiers :: "string \<Rightarrow> jsnum" where
  "Modifiers name = map_of Modifiers_table name"

text \<open>
  The enum \<open>Specifity\<close>: the weights of the modifier names and of \<open>filter\<close>, then the
  weights of the kind names, \<open>k << 8\<close>.
\<close>

definition Specifity_filter :: int where "Specifity_filter = push_bit 7 1"

definition Specifity_modifier_table :: "(string \<times> int) list" where
  "Specifity_modifier_table =
    [(''const'', 1), (''readonly'', 1),
     (''static'', push_bit 1 1), (''global'', push_bit 1 1), (''local'', push_bit 1 1),
     (''public'', push_bit 2 1), (''protected'', push_bit 2 1), (''private'', push_bit 2 1),
     (''abstract'', push_bit 3 1), (''export'', push_bit 4 1), (''import'', push_bit 5 1),
     (''rename'', push_bit 6 1), (''filter'', Specifity_filter)]"

definition Specifity_kind_table :: "(string \<times> int) list" where
  "Specifity_kind_table =
    [(''default'', push_bit 8 1), (''variable'', push_bit 8 2),
     (''function'', push_bit 8 3), (''parameter'', push_bit 8 4),
     (''member'', push_bit 8 5), (''property'', push_bit 8 6), (''method'', push_bit 8 6),
     (''enumMember'', push_bit 8 7), (''type'', push_bit 8 8), (''class'', push_bit 8 9),
     (''interface'', push_bit 8 9), (''typeAlias'', push_bit 8 9),
     (''genericTypeParameter'', push_bit 8 9), (''enum'', push_bit 8 9)]"

text \<open>\<open>Specifity[name]\<close>, as a number.\<close>

definition Specifity :: "string \<Rightarrow> jsnum" where
  "Specifity name = map_of (Specifity_modifier_table @ Specifity_kind_table) name"

section \<open>Configuration\<close>

text \<open>A value that is one item or an array of items (\<open>T | T[]\<close>).\<close>

datatype 'a one_or_many = One 'a | Many "'a list"

text \<open>
  \<open>Partial<IFormat>\<close>: \<open>None\<close> is a property that the object does not have. The
  configuration comes from JSON, where a property cannot hold \<open>undefined\<close>.
\<close>

record IFormat =
  format :: "string one_or_many option"
  leadingUnderscore :: "string option"
  trailingUnderscore :: "string option"
  prefix :: "string one_or_many option"
  suffix :: "string one_or_many option"
  regex :: "string option"

text \<open>\<open>RuleConfig = IRuleScope & Partial<IFormat>\<close>; \<open>final\<close> holds \<open>!!raw.final\<close>.\<close>

record RuleConfig = IFormat +
  type :: string
  modifiers :: "string one_or_many option"
  final :: bool
  filter_src :: "string option"

text \<open>
  The regular expressions of the host. \<open>rx_valid src\<close> says that \<open>new RegExp(src)\<close>
  returns (it throws a SyntaxError otherwise), \<open>rx_test src s\<close> is
  \<open>new RegExp(src).test(s)\<close>. A compiled expression is kept as its source.
\<close>

record regex_engine =
  rx_valid :: "string \<Rightarrow> bool"
  rx_test :: "string \<Rightarrow> string \<Rightarrow> bool"

datatype error = SyntaxError string

section \<open>Rule normalizer (class NormalizedConfig)\<close>

record NormalizedConfig =
  nc_type :: jsnum
  nc_filter :: "string option"
  nc_format :: "unit RuleConfig_scheme"
  nc_modifiers :: jsnum
  nc_specifity :: jsnum
  nc_final :: bool

text \<open>\<open>a |= b\<close> on values that may not be numbers.\<close>

definition or_assign :: "jsnum \<Rightarrow> jsnum \<Rightarrow> jsnum" where
  "or_assign a b = Some (ToInt32 a OR ToInt32 b)"

text \<open>The loop over \<open>raw.modifiers\<close> when it is an array.\<close>

fun modifiers_loop :: "string list \<Rightarrow> jsnum \<times> jsnum \<Rightarrow> jsnum \<times> jsnum" where
  "modifiers_loop [] (m, s) = (m, s)"
| "modifiers_loop (modifier # rest) (m, s) =
     modifiers_loop rest (or_assign m (Modifiers modifier), or_assign s (Specifity modifier))"

definition new_NormalizedConfig :: "regex_engine \<Rightarrow> RuleConfig \<Rightarrow> error + NormalizedConfig" where
  "new_NormalizedConfig eng raw =
    (let ty = Types (type raw);
         fin = final raw;
         s0 = Specifity (type raw);
         m0 = Some 0;
         (m1, s1) =
           (case modifiers raw of
              None \<Rightarrow> (m0, s0)
            | Some (Many ms) \<Rightarrow> modifiers_loop ms (m0, s0)
            | Some (One modifier) \<Rightarrow> (Modifiers modifier, or_assign s0 (Specifity modifier)))
     in case filter_src raw of
          Some src \<Rightarrow>
            if rx_valid eng src
            then Inr \<lparr>nc_type = ty, nc_filter = Some src, nc_format = raw, nc_modifiers = m1,
                      nc_specifity = or_assign s1 (Some Specifity_filter), nc_final = fin\<rparr>
            else Inl (SyntaxError src)
        | None \<Rightarrow>
            Inr \<lparr>nc_type = ty, nc_filter = None, nc_format = raw, nc_modifiers = m1,
                 nc_specifity = s1, nc_final = fin\<rparr>)"

text \<open>\<open>matches\<close> returns the pair \<open>[matches, filterUsed]\<close>.\<close>

definition matches :: "regex_engine \<Rightarrow> NormalizedConfig \<Rightarrow> int \<Rightarrow> int \<Rightarrow> string \<Rightarrow> bool \<times> bool" where
  "matches eng r ty mods name =
    (if nc_final r \<and> ty > push_bit 1 (ToInt32 (nc_type r)) then (False, False)
     else if (ToInt32 (nc_type r) AND ty) = 0 \<or> (ToInt32 (nc_modifiers r) AND NOT mods) \<noteq> 0
       then (False, False)
     else case nc_filter r of
            None \<Rightarrow> (True, False)
          | Some src \<Rightarrow> (rx_test eng src name, True))"

definition getFormat :: "NormalizedConfig \<Rightarrow> RuleConfig" where
  "getFormat r = nc_format r"

text \<open>
  \<open>NormalizedConfig.sort\<close>, the comparator: the difference of the scores. With a score
  that is not a number the difference is NaN, which \<open>Array.prototype.sort\<close> reads as 0.
\<close>

definition sort_cmp :: "NormalizedConfig \<Rightarrow> NormalizedConfig \<Rightarrow> int" where
  "sort_cmp first second =
    (case (nc_specifity first, nc_specifity second) of
       (Some a, Some b) \<Rightarrow> a - b
     | _ \<Rightarrow> 0)"

text \<open>
  The source hands this comparator to \<open>Array.prototype.sort\<close> of the host and leaves the
  rest to it. What the host does with elements that compare equal is its own choice
  before ECMAScript 2019, and the order they had since. \<open>array_sort\<close> is the sort of a
  host of the 2019 edition: a stable sort, here by insertion, each element placed before
  the first one it does not come after. Where a comparison is NaN the order is the
  host's own in every edition, and \<open>array_sort\<close> gives one such order.
\<close>

fun array_insert :: "('a \<Rightarrow> 'a \<Rightarrow> int) \<Rightarrow> 'a \<Rightarrow> 'a list \<Rightarrow> 'a list" where
  "array_insert cmp x [] = [x]"
| "array_insert cmp x (y # ys) =
     (if cmp x y \<le> 0 then x # y # ys else y # array_insert cmp x ys)"

definition array_sort :: "('a \<Rightarrow> 'a \<Rightarrow> int) \<Rightarrow> 'a list \<Rightarrow> 'a list" where
  "array_sort cmp xs = foldr (array_insert cmp) xs []"

text \<open>\<open>ruleArguments.map((rule) => new NormalizedConfig(rule))\<close>; the first throw ends it.\<close>

fun map_NormalizedConfig :: "regex_engine \<Rightarrow> RuleConfig list \<Rightarrow> error + NormalizedConfig list" where
  "map_NormalizedConfig eng [] = Inr []"
| "map_NormalizedConfig eng (rule # rest) =
     (case new_NormalizedConfig eng rule of
        Inl e \<Rightarrow> Inl e
      | Inr r \<Rightarrow>
          (case map_NormalizedConfig eng rest of
             Inl e \<Rightarrow> Inl e
           | Inr rs \<Rightarrow> Inr (r # rs)))"

text \<open>A sort of the host: it takes the comparator and the array.\<close>

type_synonym host_sort =
  "(NormalizedConfig \<Rightarrow> NormalizedConfig \<Rightarrow> int) \<Rightarrow> NormalizedConfig list \<Rightarrow> NormalizedConfig list"

text \<open>
  \<open>Rule.apply\<close>, up to the construction of the walker, on a host whose
  \<open>Array.prototype.sort\<close> is \<open>srt\<close>: the options of the walker are the normalized rules,
  sorted by the host with the comparator \<open>NormalizedConfig.sort\<close>.
\<close>

definition Rule_options_on ::
  "host_sort \<Rightarrow> regex_engine \<Rightarrow> RuleConfig list \<Rightarrow> error + NormalizedConfig list" where
  "Rule_options_on srt eng ruleArguments =
    (case map_NormalizedConfig eng ruleArguments of
       Inl e \<Rightarrow> Inl e
     | Inr rs \<Rightarrow> Inr (srt sort_cmp rs))"

text \<open>The same on a host of ECMAScript 2019.\<close>

definition Rule_options :: "regex_engine \<Rightarrow> RuleConfig list \<Rightarrow> error + NormalizedConfig list" where
  "Rule_options eng ruleArguments = Rule_options_on array_sort eng ruleArguments"

text \<open>
  A sort that the editions before 2019 allow as well: by insertion, each element placed
  behind the elements it compares equal to, so that equal elements come out in the
  reverse of their original order.
\<close>

fun array_insert_behind :: "('a \<Rightarrow> 'a \<Rightarrow> int) \<Rightarrow> 'a \<Rightarrow> 'a list \<Rightarrow> 'a list" where
  "array_insert_behind cmp x [] = [x]"
| "array_insert_behind cmp x (y # ys) =
     (if cmp x y < 0 then x # y # ys else y # array_insert_behind cmp x ys)"

definition reversing_sort :: "('a \<Rightarrow> 'a \<Rightarrow> int) \<Rightarrow> 'a list \<Rightarrow> 'a list" where
  "reversing_sort cmp xs = foldr (array_insert_behind cmp) xs []"

section \<open>Case conventions\<close>

text \<open>
  Identifiers are sequences of ASCII characters; \<open>toUpperCase\<close> and \<open>toLowerCase\<close>
  exchange \<open>a\<close>..\<open>z\<close> and \<open>A\<close>..\<open>Z\<close> and leave every other character alone.
\<close>

definition lower_letters :: string where "lower_letters = ''abcdefghijklmnopqrstuvwxyz''"
definition upper_letters :: string where "upper_letters = ''ABCDEFGHIJKLMNOPQRSTUVWXYZ''"

definition toUpperCase_char :: "char \<Rightarrow> char" where
  "toUpperCase_char c =
    (case map_of (zip lower_letters upper_letters) c of None \<Rightarrow> c | Some u \<Rightarrow> u)"

definition toLowerCase_char :: "char \<Rightarrow> char" where
  "toLowerCase_char c =
    (case map_of (zip upper_letters lower_letters) c of None \<Rightarrow> c | Some l \<Rightarrow> l)"

definition toUpperCase :: "string \<Rightarrow> string" where
  "toUpperCase s = map toUpperCase_char s"

definition toLowerCase :: "string \<Rightarrow> string" where
  "toLowerCase s = map toLowerCase_char s"

definition isUppercaseChar :: "char \<Rightarrow> bool" where
  "isUppercaseChar c = (c = toUpperCase_char c \<and> c \<noteq> toLowerCase_char c)"

text \<open>The loop of \<open>hasStrictCamelHumps\<close>, from index 1 on.\<close>

fun camelHumps_loop :: "string \<Rightarrow> bool \<Rightarrow> bool" where
  "camelHumps_loop [] isUpper = True"
| "camelHumps_loop (c # cs) isUpper =
     (if c = CHR ''_'' then False
      else if isUpper = isUppercaseChar c
        then (if isUpper then False else camelHumps_loop cs isUpper)
      else camelHumps_loop cs (\<not> isUpper))"

definition hasStrictCamelHumps :: "string \<Rightarrow> bool \<Rightarrow> bool" where
  "hasStrictCamelHumps name isUpper =
    (case name of
       [] \<Rightarrow> True
     | c # cs \<Rightarrow> if c = CHR ''_'' then False else camelHumps_loop cs isUpper)"

definition isPascalCase :: "string \<Rightarrow> bool" where
  "isPascalCase name =
    (case name of
       [] \<Rightarrow> True
     | c # _ \<Rightarrow> c = toUpperCase_char c \<and> hasStrictCamelHumps name True)"

definition isCamelCase :: "string \<Rightarrow> bool" where
  "isCamelCase name =
    (case name of
       [] \<Rightarrow> True
     | c # _ \<Rightarrow> c = toLowerCase_char c \<and> hasStrictCamelHumps name False)"

text \<open>The loop of \<open>validateUnderscores\<close>, from index 1 on.\<close>

fun underscores_loop :: "string \<Rightarrow> bool \<Rightarrow> bool" where
  "underscores_loop [] wasUnderscore = (\<not> wasUnderscore)"
| "underscores_loop (c # cs) wasUnderscore =
     (if c = CHR ''_''
      then (if wasUnderscore then False else underscores_loop cs True)
      else underscores_loop cs False)"

definition validateUnderscores :: "string \<Rightarrow> bool" where
  "validateUnderscores name =
    (case name of
       [] \<Rightarrow> True
     | c # cs \<Rightarrow> if c = CHR ''_'' then False else underscores_loop cs False)"

definition isSnakeCase :: "string \<Rightarrow> bool" where
  "isSnakeCase name = (name = toLowerCase name \<and> validateUnderscores name)"

definition isUpperCase :: "string \<Rightarrow> bool" where
  "isUpperCase name = (name = toUpperCase name \<and> validateUnderscores name)"

definition PASCAL_OPTION :: string where "PASCAL_OPTION = ''PascalCase''"
definition CAMEL_OPTION :: string where "CAMEL_OPTION = ''camelCase''"
definition SNAKE_OPTION :: string where "SNAKE_OPTION = ''snake_case''"
definition UPPER_OPTION :: string where "UPPER_OPTION = ''UPPER_CASE''"

text \<open>
  \<open>matchesFormat\<close>: the \<open>switch\<close> has no default, so a format that is none of the four
  names falls out of the function, which then returns \<open>undefined\<close>: \<open>None\<close>.
\<close>

definition matchesFormat :: "string \<Rightarrow> string \<Rightarrow> bool option" where
  "matchesFormat identifier fmt =
    (if fmt = PASCAL_OPTION then Some (isPascalCase identifier)
     else if fmt = CAMEL_OPTION then Some (isCamelCase identifier)
     else if fmt = SNAKE_OPTION then Some (isSnakeCase identifier)
     else if fmt = UPPER_OPTION then Some (isUpperCase identifier)
     else None)"

text \<open>The truth value JavaScript gives the result of \<open>matchesFormat\<close>.\<close>

definition truthy_result :: "bool option \<Rightarrow> bool" where
  "truthy_result r = (r = Some True)"

fun matchesAnyFormat :: "string \<Rightarrow> string list \<Rightarrow> bool" where
  "matchesAnyFormat identifier [] = False"
| "matchesAnyFormat identifier (fmt # formats) =
     (if truthy_result (matchesFormat identifier fmt) then True
      else matchesAnyFormat identifier formats)"

text \<open>
  \<open>formatFormatList\<close>: only called with two formats or more; an index out of range
  reads \<open>undefined\<close>, which concatenation prints as the word.
\<close>

fun middle_formats :: "string list \<Rightarrow> string" where
  "middle_formats [] = []"
| "middle_formats [l] = []"
| "middle_formats (f # rest) = '', '' @ f @ middle_formats rest"

definition formatFormatList :: "string list \<Rightarrow> string" where
  "formatFormatList formats =
    (case formats of
       [] \<Rightarrow> ''undefined or undefined''
     | f # rest \<Rightarrow> f @ middle_formats rest @ '' or '' @ last formats)"

section \<open>Format validator (class NameChecker)\<close>

definition FORMAT_FAIL :: string where "FORMAT_FAIL = '' name must be in ''"
definition LEADING_FAIL :: string where
  "LEADING_FAIL = '' name must not have leading underscore''"
definition TRAILING_FAIL :: string where
  "TRAILING_FAIL = '' name must not have trailing underscore''"
definition NO_LEADING_FAIL :: string where
  "NO_LEADING_FAIL = '' name must have leading underscore''"
definition NO_TRAILING_FAIL :: string where
  "NO_TRAILING_FAIL = '' name must have trailing underscore''"
definition REGEX_FAIL :: string where "REGEX_FAIL = '' name did not match required regex''"
definition PREFIX_FAIL :: string where "PREFIX_FAIL = '' name must start with ''"
definition SUFFIX_FAIL :: string where "SUFFIX_FAIL = '' name must end with ''"
definition PREFIX_FAIL_ARR :: string where "PREFIX_FAIL_ARR = '' name must start with one of ''"
definition SUFFIX_FAIL_ARR :: string where "SUFFIX_FAIL_ARR = '' name must end with one of ''"

text \<open>
  \<open>parseOptionArray\<close>: an array of one item becomes the item, an empty array becomes
  \<open>undefined\<close>.
\<close>

fun parseOptionArray :: "'a one_or_many option \<Rightarrow> 'a one_or_many option" where
  "parseOptionArray (Some (Many xs)) =
     (if length xs > 1 then Some (Many xs)
      else (case xs of [] \<Rightarrow> None | x # _ \<Rightarrow> Some (One x)))"
| "parseOptionArray option = option"

text \<open>What \<open>if (v)\<close> and \<open>!v\<close> see: an absent or empty string is false, an array is true.\<close>

definition truthy_string :: "string option \<Rightarrow> bool" where
  "truthy_string v = (case v of None \<Rightarrow> False | Some s \<Rightarrow> s \<noteq> [])"

definition truthy_option :: "string one_or_many option \<Rightarrow> bool" where
  "truthy_option v =
    (case v of None \<Rightarrow> False | Some (One s) \<Rightarrow> s \<noteq> [] | Some (Many _) \<Rightarrow> True)"

record NameChecker =
  ck_type :: int
  ck_format :: "string one_or_many option"
  ck_leadingUnderscore :: "string option"
  ck_trailingUnderscore :: "string option"
  ck_prefix :: "string one_or_many option"
  ck_suffix :: "string one_or_many option"
  ck_regex :: "string option"

definition new_NameChecker :: "regex_engine \<Rightarrow> int \<Rightarrow> IFormat \<Rightarrow> error + NameChecker" where
  "new_NameChecker eng ty fmt =
    (let c = \<lparr>ck_type = ty,
              ck_format = parseOptionArray (format fmt),
              ck_leadingUnderscore = leadingUnderscore fmt,
              ck_trailingUnderscore = trailingUnderscore fmt,
              ck_prefix = parseOptionArray (prefix fmt),
              ck_suffix = parseOptionArray (suffix fmt),
              ck_regex = None\<rparr>
     in if truthy_string (regex fmt)
        then (case regex fmt of
                Some src \<Rightarrow>
                  if rx_valid eng src then Inr (c\<lparr>ck_regex := Some src\<rparr>)
                  else Inl (SyntaxError src)
              | None \<Rightarrow> Inr c)
        else Inr c)"

definition failMessage :: "NameChecker \<Rightarrow> string \<Rightarrow> string" where
  "failMessage c message = TypeSelector_name (ck_type c) @ message"

definition startsWith :: "string \<Rightarrow> string \<Rightarrow> bool" where
  "startsWith s p = (take (length p) s = p)"

definition endsWith :: "string \<Rightarrow> string \<Rightarrow> bool" where
  "endsWith s p = (length p \<le> length s \<and> drop (length s - length p) s = p)"

text \<open>\<open>s.slice(n)\<close> and \<open>s.slice(0, -n)\<close> for \<open>n > 0\<close>; \<open>s.slice(-n)\<close>, where \<open>-0\<close> is 0.\<close>

definition slice_from :: "string \<Rightarrow> nat \<Rightarrow> string" where
  "slice_from s n = drop n s"

definition slice_to_neg :: "string \<Rightarrow> nat \<Rightarrow> string" where
  "slice_to_neg s n = take (length s - n) s"

definition slice_from_neg :: "string \<Rightarrow> nat \<Rightarrow> string" where
  "slice_from_neg s n = (if n = 0 then s else drop (length s - n) s)"

text \<open>\<open>Array.prototype.toString\<close> on strings: the items joined by commas.\<close>

fun array_toString :: "string list \<Rightarrow> string" where
  "array_toString [] = []"
| "array_toString [x] = x"
| "array_toString (x # xs) = x @ '','' @ array_toString xs"

text \<open>The checks return the identifier they leave and the failures they add.\<close>

definition checkPrefixes :: "NameChecker \<Rightarrow> string \<Rightarrow> string list \<Rightarrow> string \<times> string list" where
  "checkPrefixes c identifier prefixes =
    (case find (\<lambda>p. startsWith identifier p) prefixes of
       Some p \<Rightarrow> (slice_from identifier (length p), [])
     | None \<Rightarrow> (identifier, [failMessage c (PREFIX_FAIL_ARR @ array_toString prefixes)]))"

definition checkSuffixes :: "NameChecker \<Rightarrow> string \<Rightarrow> string list \<Rightarrow> string \<times> string list" where
  "checkSuffixes c identifier suffixes =
    (case find (\<lambda>s. endsWith identifier s) suffixes of
       Some s \<Rightarrow> (slice_from_neg identifier (length s), [])
     | None \<Rightarrow> (identifier, [failMessage c (SUFFIX_FAIL_ARR @ array_toString suffixes)]))"

definition check_regex :: "regex_engine \<Rightarrow> NameChecker \<Rightarrow> string \<Rightarrow> string list" where
  "check_regex eng c identifier =
    (case ck_regex c of
       None \<Rightarrow> []
     | Some src \<Rightarrow> if \<not> rx_test eng src identifier then [failMessage c REGEX_FAIL] else [])"

definition check_leading :: "NameChecker \<Rightarrow> string \<Rightarrow> string \<times> string list" where
  "check_leading c identifier =
    (if truthy_string (ck_leadingUnderscore c) then
       (if identifier \<noteq> [] \<and> hd identifier = CHR ''_'' then
          (slice_from identifier 1,
           if ck_leadingUnderscore c = Some ''forbid'' then [failMessage c LEADING_FAIL] else [])
        else if ck_leadingUnderscore c = Some ''require''
          then (identifier, [failMessage c NO_LEADING_FAIL])
        else (identifier, []))
     else (identifier, []))"

definition check_trailing :: "NameChecker \<Rightarrow> string \<Rightarrow> string \<times> string list" where
  "check_trailing c identifier =
    (if truthy_string (ck_trailingUnderscore c) then
       (if identifier \<noteq> [] \<and> last identifier = CHR ''_'' then
          (slice_to_neg identifier 1,
           if ck_trailingUnderscore c = Some ''forbid'' then [failMessage c TRAILING_FAIL] else [])
        else if ck_trailingUnderscore c = Some ''require''
          then (identifier, [failMessage c NO_TRAILING_FAIL])
        else (identifier, []))
     else (identifier, []))"

definition check_prefix :: "NameChecker \<Rightarrow> string \<Rightarrow> string \<times> string list" where
  "check_prefix c identifier =
    (if truthy_option (ck_prefix c) then
       (case ck_prefix c of
          Some (Many prefixes) \<Rightarrow> checkPrefixes c identifier prefixes
        | Some (One p) \<Rightarrow>
            if startsWith identifier p then (slice_from identifier (length p), [])
            else (identifier, [failMessage c (PREFIX_FAIL @ p)])
        | None \<Rightarrow> (identifier, []))
     else (identifier, []))"

definition check_suffix :: "NameChecker \<Rightarrow> string \<Rightarrow> string \<times> string list" where
  "check_suffix c identifier =
    (if truthy_option (ck_suffix c) then
       (case ck_suffix c of
          Some (Many suffixes) \<Rightarrow> checkSuffixes c identifier suffixes
        | Some (One s) \<Rightarrow>
            if endsWith identifier s then (slice_to_neg identifier (length s), [])
            else (identifier, [failMessage c (SUFFIX_FAIL @ s)])
        | None \<Rightarrow> (identifier, []))
     else (identifier, []))"

definition check_format :: "NameChecker \<Rightarrow> string \<Rightarrow> string list" where
  "check_format c identifier =
    (if truthy_option (ck_format c) then
       (case ck_format c of
          Some (Many formats) \<Rightarrow>
            if \<not> matchesAnyFormat identifier formats
            then [failMessage c (FORMAT_FAIL @ formatFormatList formats)] else []
        | Some (One fmt) \<Rightarrow>
            if \<not> truthy_result (matchesFormat identifier fmt)
            then [failMessage c (FORMAT_FAIL @ fmt)] else []
        | None \<Rightarrow> [])
     else [])"

text \<open>
  \<open>NameChecker.check\<close> up to the comment \<open>// case checks\<close>: the identifier that the
  case checks will see, and the failures added so far.
\<close>

definition check_affixes :: "regex_engine \<Rightarrow> NameChecker \<Rightarrow> string \<Rightarrow> string \<times> string list" where
  "check_affixes eng c name =
    (let f0 = check_regex eng c name;
         (i1, f1) = check_leading c name;
         (i2, f2) = check_trailing c i1;
         (i3, f3) = check_prefix c i2;
         (i4, f4) = check_suffix c i3
     in (i4, f0 @ f1 @ f2 @ f3 @ f4))"

text \<open>\<open>NameChecker.check\<close>: the messages handed to \<open>walker.addFailureAtNode\<close>, in order.\<close>

definition check :: "regex_engine \<Rightarrow> NameChecker \<Rightarrow> string \<Rightarrow> string list" where
  "check eng c name =
    (let (identifier, failures) = check_affixes eng c name
     in failures @ check_format c identifier)"

section \<open>Resolution engine (class IdentifierNameWalker)\<close>

text \<open>The initial value of the \<open>reduce\<close> in \<open>_createChecker\<close>.\<close>

definition empty_format :: IFormat where
  "empty_format =
    \<lparr>format = None, leadingUnderscore = None, trailingUnderscore = None,
     prefix = None, suffix = None, regex = None\<rparr>"

text \<open>
  \<open>Object.assign(format, rule.getFormat())\<close>, on the six properties that are read later:
  a property that the source object has replaces the one of the target.
\<close>

definition assign_field :: "'a option \<Rightarrow> 'a option \<Rightarrow> 'a option" where
  "assign_field target source = (case source of None \<Rightarrow> target | Some v \<Rightarrow> Some v)"

definition Object_assign :: "IFormat \<Rightarrow> RuleConfig \<Rightarrow> IFormat" where
  "Object_assign target source =
    \<lparr>format = assign_field (format target) (format source),
     leadingUnderscore = assign_field (leadingUnderscore target) (leadingUnderscore source),
     trailingUnderscore = assign_field (trailingUnderscore target) (trailingUnderscore source),
     prefix = assign_field (prefix target) (prefix source),
     suffix = assign_field (suffix target) (suffix source),
     regex = assign_field (regex target) (regex source)\<rparr>"

text \<open>The callback of the \<open>reduce\<close>; the variable \<open>hasFilter\<close> is carried along.\<close>

definition reduce_rule ::
  "regex_engine \<Rightarrow> int \<Rightarrow> int \<Rightarrow> string \<Rightarrow> IFormat \<times> bool \<Rightarrow> NormalizedConfig \<Rightarrow> IFormat \<times> bool" where
  "reduce_rule eng ty mods name acc rule =
    (let (fmt, hasFilter) = acc;
         (m, filterUsed) = matches eng rule ty mods name
     in if \<not> m then (fmt, hasFilter)
        else (Object_assign fmt (getFormat rule), if filterUsed then True else hasFilter))"

text \<open>The \<open>reduce\<close> over the options: the merged contract and \<open>hasFilter\<close>.\<close>

definition reduce_options ::
  "regex_engine \<Rightarrow> NormalizedConfig list \<Rightarrow> int \<Rightarrow> int \<Rightarrow> string \<Rightarrow> IFormat \<times> bool" where
  "reduce_options eng options ty mods name =
    foldl (reduce_rule eng ty mods name) (empty_format, False) options"

definition createChecker ::
  "regex_engine \<Rightarrow> NormalizedConfig list \<Rightarrow> int \<Rightarrow> int \<Rightarrow> string
    \<Rightarrow> error + (NameChecker option \<times> bool)" where
  "createChecker eng options ty mods name =
    (let (config, hasFilter) = reduce_options eng options ty mods name
     in if \<not> truthy_string (leadingUnderscore config) \<and>
           \<not> truthy_string (trailingUnderscore config) \<and>
           \<not> truthy_option (format config) \<and>
           \<not> truthy_option (prefix config) \<and>
           \<not> truthy_string (regex config) \<and>
           \<not> truthy_option (suffix config)
        then Inr (None, hasFilter)
        else (case new_NameChecker eng ty config of
                Inl e \<Rightarrow> Inl e
              | Inr c \<Rightarrow> Inr (Some c, hasFilter)))"

text \<open>
  The cache: the key \<open>`${type},${modifiers}`\<close> is the pair of the two numbers; a stored
  \<open>null\<close> is \<open>Some None\<close>.
\<close>

type_synonym cache = "int \<times> int \<Rightarrow> NameChecker option option"

definition getMatchingChecker ::
  "regex_engine \<Rightarrow> NormalizedConfig list \<Rightarrow> cache \<Rightarrow> int \<Rightarrow> int \<Rightarrow> string
    \<Rightarrow> error + (NameChecker option \<times> cache)" where
  "getMatchingChecker eng options cch ty mods name =
    (case cch (ty, mods) of
       Some cached \<Rightarrow> Inr (cached, cch)
     | None \<Rightarrow>
         (case createChecker eng options ty mods name of
            Inl e \<Rightarrow> Inl e
          | Inr (checker, hasFilter) \<Rightarrow>
              Inr (checker, if \<not> hasFilter then cch((ty, mods) \<mapsto> checker) else cch)))"

text \<open>\<open>_checkName\<close>: the failures it reports for the name, and the cache afterwards.\<close>

definition checkName ::
  "regex_engine \<Rightarrow> NormalizedConfig list \<Rightarrow> cache \<Rightarrow> string \<Rightarrow> int \<Rightarrow> int
    \<Rightarrow> error + (string list \<times> cache)" where
  "checkName eng options cch name ty mods =
    (case getMatchingChecker eng options cch ty mods name of
       Inl e \<Rightarrow> Inl e
     | Inr (matchingChecker, cch') \<Rightarrow>
         Inr (case matchingChecker of None \<Rightarrow> [] | Some c \<Rightarrow> check eng c name, cch'))"

text \<open>
  A run of \<open>_checkName\<close> calls on one walker, in order: the failures of each call, and
  the cache at the end.
\<close>

fun checkNames ::
  "regex_engine \<Rightarrow> NormalizedConfig list \<Rightarrow> cache \<Rightarrow> (string \<times> int \<times> int) list
    \<Rightarrow> error + (string list list \<times> cache)" where
  "checkNames eng options cch [] = Inr ([], cch)"
| "checkNames eng options cch ((name, ty, mods) # rest) =
     (case checkName eng options cch name ty mods of
        Inl e \<Rightarrow> Inl e
      | Inr (failures, cch') \<Rightarrow>
          (case checkNames eng options cch' rest of
             Inl e \<Rightarrow> Inl e
           | Inr (reports, cch'') \<Rightarrow> Inr (failures # reports, cch'')))"

text \<open>The failures alone.\<close>

definition reported :: "error + ('a \<times> cache) \<Rightarrow> error + 'a" where
  "reported r = (case r of Inl e \<Rightarrow> Inl e | Inr (failures, cch) \<Rightarrow> Inr failures)"

text \<open>\<open>new NameChecker(type, contract).check(name)\<close>.\<close>

definition check_contract ::
  "regex_engine \<Rightarrow> int \<Rightarrow> IFormat \<Rightarrow> string \<Rightarrow> error + string list" where
  "check_contract eng ty contract name =
    (case new_NameChecker eng ty contract of
       Inl e \<Rightarrow> Inl e
     | Inr c \<Rightarrow> Inr (check eng c name))"

text \<open>The identifier that the case checks of that call see.\<close>

definition case_checked_identifier ::
  "regex_engine \<Rightarrow> int \<Rightarrow> IFormat \<Rightarrow> string \<Rightarrow> error + string" where
  "case_checked_identifier eng ty contract name =
    (case new_NameChecker eng ty contract of
       Inl e \<Rightarrow> Inl e
     | Inr c \<Rightarrow> Inr (fst (check_affixes eng c name)))"

section \<open>Declaration classifier\<close>

text \<open>The modifier tokens of a node; \<open>node.modifiers\<close> is \<open>undefined\<close> or an array.\<close>

datatype SyntaxKind =
  AbstractKeyword | AsyncKeyword | ConstKeyword | DeclareKeyword | DefaultKeyword
  | ExportKeyword | PrivateKeyword | ProtectedKeyword | PublicKeyword | ReadonlyKeyword
  | StaticKeyword

definition hasModifier :: "SyntaxKind list option \<Rightarrow> SyntaxKind \<Rightarrow> bool" where
  "hasModifier node_modifiers kind =
    (case node_modifiers of None \<Rightarrow> False | Some ms \<Rightarrow> List.member ms kind)"

text \<open>\<open>if (cond) modifiers |= flag\<close>.\<close>

definition or_if :: "bool \<Rightarrow> int \<Rightarrow> int \<Rightarrow> int" where
  "or_if cond flag m = (if cond then m OR flag else m)"

text \<open>\<open>_getModifiers\<close>, with the field \<open>_depth\<close> of the walker and \<open>node.modifiers\<close>.\<close>

definition getModifiers :: "nat \<Rightarrow> SyntaxKind list option \<Rightarrow> int \<Rightarrow> int" where
  "getModifiers depth node_modifiers ty =
    (let m0 = 0;
         m1 =
           (if node_modifiers \<noteq> None then
              (let a =
                 (if (ty OR Types_member) \<noteq> 0 then
                    (let v =
                       (if hasModifier node_modifiers PrivateKeyword then m0 OR Modifiers_private
                        else if hasModifier node_modifiers ProtectedKeyword
                          then m0 OR Modifiers_protected
                        else m0 OR Modifiers_public);
                         r = or_if (hasModifier node_modifiers ReadonlyKeyword) Modifiers_const v
                     in or_if (hasModifier node_modifiers StaticKeyword) Modifiers_static r)
                  else m0);
                   b = or_if (hasModifier node_modifiers ConstKeyword) Modifiers_const a;
                   c = or_if (hasModifier node_modifiers ExportKeyword) Modifiers_export b
               in or_if (hasModifier node_modifiers AbstractKeyword) Modifiers_abstract c)
            else m0)
     in if ty \<noteq> TypeSelector_property \<and> ty \<noteq> TypeSelector_method
        then m1 OR (if depth \<noteq> 0 then Modifiers_local else Modifiers_global)
        else m1)"

text \<open>
  A declared variable as \<open>forEachDeclaredVariable\<close> hands it to the callback: its name
  and, in a destructuring, the property name it binds.
\<close>

datatype PropertyName = Identifier string | OtherPropertyName

record DeclaredVariable =
  dv_name :: string
  dv_propertyName :: "PropertyName option"

definition isEqualName :: "string \<Rightarrow> PropertyName option \<Rightarrow> bool" where
  "isEqualName name propertyName =
    (case propertyName of
       None \<Rightarrow> True
     | Some (Identifier text) \<Rightarrow> text = name
     | Some OtherPropertyName \<Rightarrow> False)"

record VariableDeclarationList =
  flags_Const :: bool
  declarations :: "DeclaredVariable list"

record VariableStatement =
  vs_modifiers :: "SyntaxKind list option"
  declarationList :: VariableDeclarationList

text \<open>The callback of \<open>forEachDeclaredVariable\<close>, run over the declared variables.\<close>

fun checkDeclaredVariables ::
  "regex_engine \<Rightarrow> NormalizedConfig list \<Rightarrow> cache \<Rightarrow> int \<Rightarrow> DeclaredVariable list
    \<Rightarrow> error + (string list \<times> cache)" where
  "checkDeclaredVariables eng options cch mods [] = Inr ([], cch)"
| "checkDeclaredVariables eng options cch mods (declaration # rest) =
     (case checkName eng options cch (dv_name declaration) TypeSelector_variable
             (mods OR (if isEqualName (dv_name declaration) (dv_propertyName declaration)
                       then 0 else Modifiers_rename)) of
        Inl e \<Rightarrow> Inl e
      | Inr (failures, cch') \<Rightarrow>
          (case checkDeclaredVariables eng options cch' mods rest of
             Inl e \<Rightarrow> Inl e
           | Inr (failures', cch'') \<Rightarrow> Inr (failures @ failures', cch'')))"

definition checkVariableDeclarationList ::
  "regex_engine \<Rightarrow> NormalizedConfig list \<Rightarrow> cache \<Rightarrow> VariableDeclarationList \<Rightarrow> int
    \<Rightarrow> error + (string list \<times> cache)" where
  "checkVariableDeclarationList eng options cch list mods =
    checkDeclaredVariables eng options cch (or_if (flags_Const list) Modifiers_const mods)
      (declarations list)"

definition visitVariableStatement ::
  "regex_engine \<Rightarrow> NormalizedConfig list \<Rightarrow> nat \<Rightarrow> cache \<Rightarrow> VariableStatement
    \<Rightarrow> error + (string list \<times> cache)" where
  "visitVariableStatement eng options depth cch node =
    (if \<not> hasModifier (vs_modifiers node) DeclareKeyword
     then checkVariableDeclarationList eng options cch (declarationList node)
            (getModifiers depth (vs_modifiers node) TypeSelector_variable)
     else Inr ([], cch))"

section \<open>A regular-expression engine for the examples\<close>

text \<open>
  The fragment of the host's regular expressions that the examples use: a source of word
  characters is a literal that is searched for, and a leading \<open>^\<close> anchors it at the
  start. The engine rejects every other source, as the host rejects \<open>(\<close>.
\<close>

definition word_chars :: string where
  "word_chars = lower_letters @ upper_letters @ ''0123456789_''"

fun str_includes :: "string \<Rightarrow> string \<Rightarrow> bool" where
  "str_includes [] lit = (lit = [])"
| "str_includes (c # cs) lit = (if startsWith (c # cs) lit then True else str_includes cs lit)"

definition literal_valid :: "string \<Rightarrow> bool" where
  "literal_valid src =
    (case src of
       [] \<Rightarrow> True
     | c # cs \<Rightarrow> list_all (\<lambda>x. List.member word_chars x) (if c = CHR ''^'' then cs else src))"

definition literal_test :: "string \<Rightarrow> string \<Rightarrow> bool" where
  "literal_test src s =
    (case src of
       [] \<Rightarrow> True
     | c # cs \<Rightarrow> if c = CHR ''^'' then startsWith s cs else str_includes s src)"

definition literal_engine :: regex_engine where
  "literal_engine = \<lparr>rx_valid = literal_valid, rx_test = literal_test\<rparr>"

text \<open>A raw rule with the kind alone.\<close>

definition raw_rule :: "string \<Rightarrow> RuleConfig" where
  "raw_rule kind =
    \<lparr>format = None, leadingUnderscore = None, trailingUnderscore = None,
     prefix = None, suffix = None, regex = None,
     type = kind, modifiers = None, final = False, filter_src = None\<rparr>"

section \<open>Sessions and example inputs\<close>

text \<open>
  \<open>Rule.apply\<close> on a source file that is one variable statement at the given scope
  depth: the options are built, a walker with an empty cache visits the statement.
\<close>

definition lint_statement ::
  "regex_engine \<Rightarrow> RuleConfig list \<Rightarrow> nat \<Rightarrow> VariableStatement \<Rightarrow> error + string list" where
  "lint_statement eng rules depth node =
    (case Rule_options eng rules of
       Inl e \<Rightarrow> Inl e
     | Inr options \<Rightarrow> reported (visitVariableStatement eng options depth Map.empty node))"

text \<open>
  \<open>Rule.apply\<close> on a source file whose walk calls \<open>_checkName\<close> for the given
  declarations (name, kind selector, modifier bitmask), in order, on one walker.
\<close>

definition lint_names ::
  "regex_engine \<Rightarrow> RuleConfig list \<Rightarrow> (string \<times> int \<times> int) list
    \<Rightarrow> error + string list list" where
  "lint_names eng rules decls =
    (case Rule_options eng rules of
       Inl e \<Rightarrow> Inl e
     | Inr options \<Rightarrow> reported (checkNames eng options Map.empty decls))"

text \<open>A statement \<open>const name = ...\<close> or \<open>let name = ...\<close> without modifier tokens.\<close>

definition variable_statement :: "bool \<Rightarrow> string \<Rightarrow> VariableStatement" where
  "variable_statement is_const name =
    \<lparr>vs_modifiers = None,
     declarationList =
       \<lparr>flags_Const = is_const,
        declarations = [\<lparr>dv_name = name, dv_propertyName = None\<rparr>]\<rparr>\<rparr>"

text \<open>The bitmask \<open>m\<close> contains the flag; how many of the flags it contains.\<close>

definition has_flag :: "int \<Rightarrow> int \<Rightarrow> bool" where
  "has_flag m flag = ((m AND flag) \<noteq> 0)"

definition count_flags :: "int \<Rightarrow> int list \<Rightarrow> nat" where
  "count_flags m flags = length (filter (has_flag m) flags)"

definition visibility_flags :: "int list" where
  "visibility_flags = [Modifiers_public, Modifiers_protected, Modifiers_private]"

definition scope_flags :: "int list" where
  "scope_flags = [Modifiers_global, Modifiers_local]"

text \<open>Property, method, parameter property (and enum member): the kinds with the member bit.\<close>

definition member_like :: "int \<Rightarrow> bool" where
  "member_like ty = ((ty AND Types_member) \<noteq> 0)"

text \<open>The rule lists and contracts of the examples.\<close>

definition caching_rules :: "RuleConfig list" where
  "caching_rules =
    [(raw_rule ''variable'')\<lparr>format := Some (One ''camelCase'')\<rparr>,
     (raw_rule ''variable'')\<lparr>filter_src := Some ''^X'', format := Some (One ''UPPER_CASE'')\<rparr>]"

definition suffix_set_contract :: IFormat where
  "suffix_set_contract =
    empty_format\<lparr>format := Some (One ''camelCase''), suffix := Some (Many [''Foo'', ''Bar''])\<rparr>"

definition suffix_single_contract :: IFormat where
  "suffix_single_contract =
    empty_format\<lparr>format := Some (One ''camelCase''), suffix := Some (One ''Foo'')\<rparr>"

definition prefix_set_contract :: IFormat where
  "prefix_set_contract =
    empty_format\<lparr>format := Some (One ''camelCase''), prefix := Some (Many [''foo'', ''bar''])\<rparr>"

definition const_rules :: "RuleConfig list" where
  "const_rules =
    [(raw_rule ''variable'')\<lparr>format := Some (One ''camelCase'')\<rparr>,
     (raw_rule ''variable'')\<lparr>modifiers := Some (One ''const''),
        format := Some (One ''UPPER_CASE'')\<rparr>]"

definition underscore_contract :: IFormat where
  "underscore_contract =
    empty_format\<lparr>format := Some (One ''camelCase''), leadingUnderscore := Some ''allow'',
      trailingUnderscore := Some ''allow''\<rparr>"

definition empty_name_contract :: IFormat where
  "empty_name_contract =
    empty_format\<lparr>format := Some (One ''''), leadingUnderscore := Some ''allow''\<rparr>"

section \<open>Notions used in the statements\<close>

text \<open>The modifier names that a raw rule lists.\<close>

definition modifier_names :: "RuleConfig \<Rightarrow> string list" where
  "modifier_names raw =
    (case modifiers raw of None \<Rightarrow> [] | Some (One m) \<Rightarrow> [m] | Some (Many ms) \<Rightarrow> ms)"

text \<open>
  The fields \<open>_modifiers\<close> and \<open>_specifity\<close> of the constructor of
  \<open>NormalizedConfig\<close> after the handling of \<open>raw.modifiers\<close>.
\<close>

definition scan_modifiers :: "RuleConfig \<Rightarrow> jsnum \<times> jsnum" where
  "scan_modifiers raw =
    (case modifiers raw of
       None \<Rightarrow> (Some 0, Specifity (type raw))
     | Some (Many ms) \<Rightarrow> modifiers_loop ms (Some 0, Specifity (type raw))
     | Some (One m) \<Rightarrow> (Modifiers m, or_assign (Specifity (type raw)) (Specifity m)))"

text \<open>The raw rule without the modifier names that \<open>Modifiers\<close> does not have.\<close>

definition known_modifiers :: "RuleConfig \<Rightarrow> RuleConfig" where
  "known_modifiers raw =
    raw\<lparr>modifiers :=
      (case modifiers raw of
         None \<Rightarrow> None
       | Some (One m) \<Rightarrow> if Modifiers m = None then None else Some (One m)
       | Some (Many ms) \<Rightarrow> Some (Many (filter (\<lambda>m. Modifiers m \<noteq> None) ms)))\<rparr>"

text \<open>
  The specificity score of a normalized rule as a number; a score that is not a number
  counts as 0.
\<close>

definition score :: "NormalizedConfig \<Rightarrow> int" where
  "score r = ToInt32 (nc_specifity r)"





text \<open>
  Every entry of the cache is what \<open>_createChecker\<close> returns for its key and any name,
  without a filter consulted.
\<close>

definition cache_sound :: "regex_engine \<Rightarrow> NormalizedConfig list \<Rightarrow> cache \<Rightarrow> bool" where
  "cache_sound eng options cch =
    (\<forall>ty mods c. cch (ty, mods) = Some c \<longrightarrow>
       (\<forall>name. createChecker eng options ty mods name = Inr (c, False)))"

text \<open>The second of the rules \<open>caching_rules\<close>, normalized.\<close>

definition filter_matcher :: NormalizedConfig where
  "filter_matcher =
    \<lparr>nc_type = Some 1, nc_filter = Some ''^X'', nc_format = caching_rules ! 1,
     nc_modifiers = Some 0, nc_specifity = Some 640, nc_final = False\<rparr>"

text \<open>More rules for the examples.\<close>

definition unknown_kind_rule :: RuleConfig where
  "unknown_kind_rule = (raw_rule ''constant'')\<lparr>format := Some (One ''UPPER_CASE'')\<rparr>"

definition unknown_modifier_rule :: RuleConfig where
  "unknown_modifier_rule =
    (raw_rule ''variable'')\<lparr>modifiers := Some (One ''mutable''),
       format := Some (One ''UPPER_CASE'')\<rparr>"

definition invalid_filter_rule :: RuleConfig where
  "invalid_filter_rule =
    (raw_rule ''variable'')\<lparr>filter_src := Some ''('', format := Some (One ''UPPER_CASE'')\<rparr>"



definition crowded_variable_rule :: RuleConfig where
  "crowded_variable_rule =
    (raw_rule ''variable'')\<lparr>modifiers :=
        Some (Many [''const'', ''static'', ''private'', ''abstract'', ''export'', ''import'',
          ''rename'']),
      filter_src := Some ''^X''\<rparr>"

definition bare_function_rule :: RuleConfig where
  "bare_function_rule = raw_rule ''function''"

section \<open>Unfolding rules for evaluation\<close>

lemmas Types_defs =
  Types_default_def Types_variable_def Types_function_def Types_parameter_def
  Types_member_def Types_property_def Types_method_def Types_type_def Types_class_def
  Types_interface_def Types_typeAlias_def Types_genericTypeParameter_def Types_enum_def
  Types_enumMember_def

lemmas TypeSelector_defs =
  TypeSelector_variable_def TypeSelector_function_def TypeSelector_parameter_def
  TypeSelector_property_def TypeSelector_parameterProperty_def TypeSelector_method_def
  TypeSelector_class_def TypeSelector_interface_def TypeSelector_typeAlias_def
  TypeSelector_genericTypeParameter_def TypeSelector_enum_def TypeSelector_enumMember_def

lemmas Modifiers_defs =
  Modifiers_const_def Modifiers_readonly_def Modifiers_static_def Modifiers_public_def
  Modifiers_protected_def Modifiers_private_def Modifiers_global_def Modifiers_local_def
  Modifiers_abstract_def Modifiers_export_def Modifiers_import_def Modifiers_rename_def

lemmas OPTION_defs = PASCAL_OPTION_def CAMEL_OPTION_def SNAKE_OPTION_def UPPER_OPTION_def

lemmas FAIL_defs =
  FORMAT_FAIL_def LEADING_FAIL_def TRAILING_FAIL_def NO_LEADING_FAIL_def NO_TRAILING_FAIL_def
  REGEX_FAIL_def PREFIX_FAIL_def SUFFIX_FAIL_def PREFIX_FAIL_ARR_def SUFFIX_FAIL_ARR_def

lemmas case_defs =
  isPascalCase_def isCamelCase_def isSnakeCase_def isUpperCase_def hasStrictCamelHumps_def
  validateUnderscores_def isUppercaseChar_def toUpperCase_def toLowerCase_def
  toUpperCase_char_def toLowerCase_char_def lower_letters_def upper_letters_def

lemmas check_defs =
  check_contract_def case_checked_identifier_def new_NameChecker_def check_def
  check_affixes_def check_regex_def check_leading_def check_trailing_def check_prefix_def
  check_suffix_def check_format_def checkPrefixes_def checkSuffixes_def failMessage_def
  truthy_string_def truthy_option_def truthy_result_def matchesFormat_def startsWith_def
  endsWith_def slice_from_def slice_to_neg_def slice_from_neg_def empty_format_def

lemmas walker_defs =
  lint_statement_def lint_names_def Rule_options_def Rule_options_on_def
  new_NormalizedConfig_def raw_rule_def
  array_sort_def sort_cmp_def Types_def Types_table_def Specifity_def
  Specifity_modifier_table_def Specifity_kind_table_def Modifiers_def Modifiers_table_def
  or_assign_def ToInt32_def Specifity_filter_def reported_def visitVariableStatement_def
  checkVariableDeclarationList_def checkName_def getMatchingChecker_def createChecker_def
  reduce_options_def reduce_rule_def matches_def getFormat_def Object_assign_def
  assign_field_def hasModifier_def getModifiers_def or_if_def isEqualName_def
  variable_statement_def Types_defs Modifiers_defs TypeSelector_defs

lemmas engine_defs =
  literal_engine_def literal_valid_def literal_test_def word_chars_def lower_letters_def
  upper_letters_def

lemma TypeSelector_name_variable:
  "TypeSelector_name TypeSelector_variable = ''variable''"
  "TypeSelector_name 1 = ''variable''"
  by (simp_all add: TypeSelector_name_def TypeSelector_table_def TypeSelector_defs Types_defs)

section \<open>Caching of checkers\<close>

text \<open>
  Claim C1. The checker that the memoized lookup returns reports what a fresh resolution
  reports, and a resolution that consulted a filter is not cached, whether or not the
  filter matched. The code contradicts it: \<open>matches\<close> reports the consulted filter of
  the second rule for the name \<open>foo\<close>, which the filter does not match, but
  \<open>_createChecker\<close> returns from its callback before it records that, so the camelCase
  checker is cached under (variable, global). The later name \<open>X_Y\<close> with the same kind
  and modifiers gets this cached checker and is reported, while a fresh resolution
  selects UPPER_CASE for it and reports nothing.
\<close>

theorem C1_filter_miss_is_cached:
  "new_NormalizedConfig literal_engine (caching_rules ! 1) = Inr filter_matcher \<and>
   matches literal_engine filter_matcher TypeSelector_variable Modifiers_global ''foo''
     = (False, True) \<and>
   lint_names literal_engine caching_rules
     [(''foo'', TypeSelector_variable, Modifiers_global),
      (''X_Y'', TypeSelector_variable, Modifiers_global)]
     = Inr [[], [''variable name must be in camelCase'']] \<and>
   lint_names literal_engine caching_rules
     [(''X_Y'', TypeSelector_variable, Modifiers_global)] = Inr [[]]"
  by (simp add: caching_rules_def filter_matcher_def walker_defs check_defs
      TypeSelector_name_variable OPTION_defs FAIL_defs case_defs engine_defs)

text \<open>
  Where no rule has a filter the cache is transparent: the resolution does not depend
  on the name, so a cached checker is the one a fresh resolution builds, and every call
  of \<open>_checkName\<close> reports what it reports on a walker with an empty cache.
\<close>

lemma matches_without_filter:
  assumes "nc_filter r = None"
  shows "matches eng r ty mods name = matches eng r ty mods name' \<and>
    \<not> snd (matches eng r ty mods name)"
  using assms by (simp add: matches_def)

lemma reduce_rule_without_filter:
  assumes "nc_filter r = None"
  shows "reduce_rule eng ty mods name acc r = reduce_rule eng ty mods name' acc r \<and>
    snd (reduce_rule eng ty mods name acc r) = snd acc"
proof -
  obtain m u where m: "matches eng r ty mods name = (m, u)"
    by (cases "matches eng r ty mods name")
  with matches_without_filter [OF assms] have "matches eng r ty mods name' = (m, u)" and "\<not> u"
    by (metis, metis snd_conv)
  with m show ?thesis
    by (cases acc) (simp add: reduce_rule_def)
qed

lemma foldl_reduce_without_filter:
  assumes "\<forall>r\<in>set options. nc_filter r = None"
  shows "foldl (reduce_rule eng ty mods name) acc options
           = foldl (reduce_rule eng ty mods name') acc options \<and>
         snd (foldl (reduce_rule eng ty mods name) acc options) = snd acc"
  using assms
proof (induction options arbitrary: acc)
  case Nil
  then show ?case by simp
next
  case (Cons r rs)
  then have r: "nc_filter r = None" and rs: "\<forall>r\<in>set rs. nc_filter r = None"
    by simp_all
  let ?a = "reduce_rule eng ty mods name acc r"
  from reduce_rule_without_filter [OF r]
  have a: "reduce_rule eng ty mods name' acc r = ?a" and s: "snd ?a = snd acc"
    by metis+
  from Cons.IH [OF rs]
  have e: "foldl (reduce_rule eng ty mods name) ?a rs
      = foldl (reduce_rule eng ty mods name') ?a rs"
    by blast
  from Cons.IH [OF rs]
  have "snd (foldl (reduce_rule eng ty mods name) ?a rs) = snd ?a"
    by blast
  then have t: "snd (foldl (reduce_rule eng ty mods name) ?a rs) = snd acc"
    using s by (rule trans)
  show ?case
    unfolding foldl_Cons a using e t by (rule conjI)
qed

lemma createChecker_without_filter:
  assumes "\<forall>r\<in>set options. nc_filter r = None"
  shows "createChecker eng options ty mods name = createChecker eng options ty mods name' \<and>
    (createChecker eng options ty mods name = Inr (c, h) \<longrightarrow> \<not> h)"
proof -
  from foldl_reduce_without_filter [OF assms]
  have eq: "reduce_options eng options ty mods name = reduce_options eng options ty mods name'"
    and nf: "\<not> snd (reduce_options eng options ty mods name)"
    unfolding reduce_options_def by (blast, simp)
  have "createChecker eng options ty mods name = createChecker eng options ty mods name'"
    by (simp add: createChecker_def eq)
  moreover have "createChecker eng options ty mods name = Inr (c, h) \<longrightarrow> \<not> h"
    using nf
    by (cases "reduce_options eng options ty mods name")
      (auto simp: createChecker_def split: if_splits sum.splits)
  ultimately show ?thesis by blast
qed

lemma cache_sound_empty: "cache_sound eng options Map.empty"
  by (simp add: cache_sound_def)

lemma cached_lookup_is_fresh:
  assumes "\<forall>r\<in>set options. nc_filter r = None" and "cache_sound eng options cch"
  shows "reported (getMatchingChecker eng options cch ty mods name)
           = reported (getMatchingChecker eng options Map.empty ty mods name)"
proof (cases "cch (ty, mods)")
  case None
  then show ?thesis
    by (auto simp: getMatchingChecker_def reported_def split: sum.splits)
next
  case (Some c)
  with assms(2) have "createChecker eng options ty mods name = Inr (c, False)"
    by (simp add: cache_sound_def)
  with Some show ?thesis
    by (simp add: getMatchingChecker_def reported_def)
qed

lemma cached_lookup_keeps_sound:
  assumes "\<forall>r\<in>set options. nc_filter r = None" and "cache_sound eng options cch"
    and "getMatchingChecker eng options cch ty mods name = Inr (c, cch')"
  shows "cache_sound eng options cch'"
proof (cases "cch (ty, mods)")
  case (Some c0)
  with assms(3) have "cch' = cch" by (simp add: getMatchingChecker_def)
  with assms(2) show ?thesis by simp
next
  case None
  with assms(3) obtain h where cr: "createChecker eng options ty mods name = Inr (c, h)"
    and cch': "cch' = (if \<not> h then cch((ty, mods) \<mapsto> c) else cch)"
    by (auto simp: getMatchingChecker_def split: sum.splits)
  from createChecker_without_filter [OF assms(1)] cr have h: "\<not> h"
    by blast
  have "createChecker eng options ty mods name' = Inr (c, False)" for name'
    using createChecker_without_filter [OF assms(1)] cr h by metis
  with assms(2) h cch' show ?thesis
    by (auto simp: cache_sound_def)
qed

lemma reported_checkName:
  "reported (checkName eng options cch name ty mods) =
    (case reported (getMatchingChecker eng options cch ty mods name) of
       Inl e \<Rightarrow> Inl e
     | Inr matchingChecker \<Rightarrow>
         Inr (case matchingChecker of None \<Rightarrow> [] | Some c \<Rightarrow> check eng c name))"
  by (simp add: checkName_def reported_def split: sum.splits prod.splits)

lemma checkName_cached_is_fresh:
  assumes "\<forall>r\<in>set options. nc_filter r = None" and "cache_sound eng options cch"
  shows "reported (checkName eng options cch name ty mods)
           = reported (checkName eng options Map.empty name ty mods)"
  by (simp only: reported_checkName cached_lookup_is_fresh [OF assms])

lemma checkName_keeps_sound:
  assumes "\<forall>r\<in>set options. nc_filter r = None" and "cache_sound eng options cch"
    and "checkName eng options cch name ty mods = Inr (failures, cch')"
  shows "cache_sound eng options cch'"
  using assms(3) cached_lookup_keeps_sound [OF assms(1,2)]
  by (auto simp: checkName_def split: sum.splits)

section \<open>Suffix sets\<close>

text \<open>
  Claim C2. With a set of suffixes, an identifier that ends with one of them loses that
  suffix before the case check, as with a set of prefixes. The code contradicts it:
  \<open>_checkSuffixes\<close> returns \<open>identifier.slice(-suffix.length)\<close>, the suffix itself, so
  for \<open>myValueFoo\<close> with the suffixes \<open>Foo\<close>, \<open>Bar\<close> the case check sees \<open>Foo\<close> and
  reports a camelCase failure. The single suffix \<open>Foo\<close> leaves \<open>myValue\<close>, and the
  prefix set strips the prefix.
\<close>

theorem C2_suffix_set_keeps_suffix:
  "case_checked_identifier eng TypeSelector_variable suffix_set_contract ''myValueFoo''
     = Inr ''Foo'' \<and>
   check_contract eng TypeSelector_variable suffix_set_contract ''myValueFoo''
     = Inr [''variable name must be in camelCase''] \<and>
   case_checked_identifier eng TypeSelector_variable suffix_single_contract ''myValueFoo''
     = Inr ''myValue'' \<and>
   check_contract eng TypeSelector_variable suffix_single_contract ''myValueFoo'' = Inr [] \<and>
   case_checked_identifier eng TypeSelector_variable prefix_set_contract ''fooMyValue''
     = Inr ''MyValue''"
  by (simp add: suffix_set_contract_def suffix_single_contract_def prefix_set_contract_def
      check_defs TypeSelector_name_variable OPTION_defs FAIL_defs case_defs)

section \<open>Modifier bits of the classifier\<close>

lemma has_flag_bit: "has_flag m (push_bit n 1) = bit m n"
  by (simp add: has_flag_def push_bit_eq_mult and_exp_eq_0_iff_not_bit)

lemma has_flag_Modifiers:
  "has_flag m Modifiers_public = bit m 2"
  "has_flag m Modifiers_protected = bit m 3"
  "has_flag m Modifiers_private = bit m 4"
  "has_flag m Modifiers_global = bit m 5"
  "has_flag m Modifiers_local = bit m 6"
  unfolding Modifiers_defs has_flag_bit by (rule refl)+

lemma bit_or_if: "bit (or_if c flag m) n = (bit m n \<or> c \<and> bit flag n)"
  by (simp add: or_if_def bit_or_iff)

lemma getModifiers_scope_bits:
  "bit (getModifiers depth nm ty) 5 =
     (ty \<noteq> TypeSelector_property \<and> ty \<noteq> TypeSelector_method \<and> depth = 0)"
  "bit (getModifiers depth nm ty) 6 =
     (ty \<noteq> TypeSelector_property \<and> ty \<noteq> TypeSelector_method \<and> depth \<noteq> 0)"
  unfolding getModifiers_def Let_def
  by (simp_all add: bit_or_if bit_or_iff Modifiers_defs)

lemma getModifiers_visibility_bits:
  "bit (getModifiers depth nm ty) 4 = (nm \<noteq> None \<and> hasModifier nm PrivateKeyword)"
  "bit (getModifiers depth nm ty) 3 =
     (nm \<noteq> None \<and> \<not> hasModifier nm PrivateKeyword \<and> hasModifier nm ProtectedKeyword)"
  "bit (getModifiers depth nm ty) 2 =
     (nm \<noteq> None \<and> \<not> hasModifier nm PrivateKeyword \<and> \<not> hasModifier nm ProtectedKeyword)"
  unfolding getModifiers_def Let_def
  by (simp_all add: bit_or_if bit_or_iff Modifiers_defs Types_member_def or_eq_0_iff)

text \<open>
  Claim C3, as stated, fails: a parameter property is member-like and still receives a
  scope bit. Here a private parameter property at depth 1 carries \<open>local\<close>.
\<close>

theorem C3_parameter_property_is_local:
  "member_like TypeSelector_parameterProperty \<and>
   has_flag (getModifiers 1 (Some [PrivateKeyword]) TypeSelector_parameterProperty)
     Modifiers_local"
  by (simp add: member_like_def has_flag_def getModifiers_def or_if_def hasModifier_def
      TypeSelector_defs Types_defs Modifiers_defs)

text \<open>
  Two more inputs on which the statement of C3 fails, both through the test
  \<open>type | Types.member\<close>, which is true of every kind, inside the guard on
  \<open>node.modifiers\<close>: an exported variable carries \<open>public\<close>, and a property without
  modifier tokens carries no visibility bit.
\<close>

lemma getModifiers_visibility_of_non_members:
  "\<not> member_like TypeSelector_variable \<and>
   has_flag (getModifiers 0 (Some [ExportKeyword]) TypeSelector_variable) Modifiers_public \<and>
   member_like TypeSelector_property \<and>
   count_flags (getModifiers 1 None TypeSelector_property) visibility_flags = 0"
  by (simp add: member_like_def has_flag_def getModifiers_def or_if_def hasModifier_def
      count_flags_def visibility_flags_def TypeSelector_defs Types_defs Modifiers_defs)

text \<open>
  Claim C3, amended. The bitmask that \<open>_getModifiers\<close> computes contains neither
  \<open>global\<close> nor \<open>local\<close> when the kind selector is property or method, and exactly one
  of the two for every other kind selector, parameter property included. It contains at
  most one of \<open>public\<close>, \<open>protected\<close>, \<open>private\<close>, and exactly one when the kind is
  member-like and the node has a modifier list.
\<close>

theorem C3_classifier_bits:
  "(ty = TypeSelector_property \<or> ty = TypeSelector_method \<longrightarrow>
      count_flags (getModifiers depth node_modifiers ty) scope_flags = 0) \<and>
   (ty \<noteq> TypeSelector_property \<and> ty \<noteq> TypeSelector_method \<longrightarrow>
      count_flags (getModifiers depth node_modifiers ty) scope_flags = 1) \<and>
   count_flags (getModifiers depth node_modifiers ty) visibility_flags \<le> 1 \<and>
   (member_like ty \<and> node_modifiers \<noteq> None \<longrightarrow>
      count_flags (getModifiers depth node_modifiers ty) visibility_flags = 1)"
  by (simp add: count_flags_def scope_flags_def visibility_flags_def has_flag_Modifiers
      getModifiers_scope_bits getModifiers_visibility_bits)

theorem C3_classifier_bits_witness:
  "count_flags (getModifiers 0 (Some [ProtectedKeyword, StaticKeyword]) TypeSelector_method)
     scope_flags = 0 \<and>
   count_flags (getModifiers 2 (Some [PrivateKeyword]) TypeSelector_parameterProperty)
     scope_flags = 1 \<and>
   count_flags (getModifiers 0 (Some [ProtectedKeyword, StaticKeyword]) TypeSelector_method)
     visibility_flags = 1"
  using C3_classifier_bits [of TypeSelector_method 0 "Some [ProtectedKeyword, StaticKeyword]"]
    C3_classifier_bits [of TypeSelector_parameterProperty 2 "Some [PrivateKeyword]"]
  by (simp add: member_like_def TypeSelector_defs Types_defs)

section \<open>The scenario of the two variable rules\<close>

text \<open>
  Claim C5. With the rules \<open>{type: variable, format: camelCase}\<close> and
  \<open>{type: variable, modifiers: const, format: UPPER_CASE}\<close>: a top-level const
  \<open>myValue\<close> is reported (must be UPPER_CASE), a top-level const \<open>MY_VALUE\<close> is not,
  a local non-const \<open>myValue\<close> is not, a local non-const \<open>My_Value\<close> is reported
  (must be camelCase).
\<close>

theorem C5_const_and_variable_rules:
  "lint_statement eng const_rules 0 (variable_statement True ''myValue'')
     = Inr [''variable name must be in UPPER_CASE''] \<and>
   lint_statement eng const_rules 0 (variable_statement True ''MY_VALUE'') = Inr [] \<and>
   lint_statement eng const_rules 1 (variable_statement False ''myValue'') = Inr [] \<and>
   lint_statement eng const_rules 1 (variable_statement False ''My_Value'')
     = Inr [''variable name must be in camelCase'']"
  by (simp add: const_rules_def walker_defs check_defs TypeSelector_name_variable
      OPTION_defs FAIL_defs case_defs)

section \<open>Case conventions: boundary cases\<close>

text \<open>
  Claim C8. The empty name is valid PascalCase and valid camelCase; \<open>A\<close> is valid
  PascalCase and invalid camelCase; \<open>aB\<close> is valid camelCase; \<open>ABC\<close> is invalid as
  PascalCase and as camelCase; \<open>a_b\<close> is valid snake_case; \<open>a__b\<close>, \<open>_a\<close> and \<open>a_\<close>
  are invalid snake_case.
\<close>

theorem C8_case_convention_verdicts:
  "isPascalCase '''' \<and> isCamelCase '''' \<and>
   isPascalCase ''A'' \<and> \<not> isCamelCase ''A'' \<and>
   isCamelCase ''aB'' \<and>
   \<not> isPascalCase ''ABC'' \<and> \<not> isCamelCase ''ABC'' \<and>
   isSnakeCase ''a_b'' \<and> \<not> isSnakeCase ''a__b'' \<and> \<not> isSnakeCase ''_a'' \<and>
   \<not> isSnakeCase ''a_''"
  by (simp add: case_defs)

section \<open>Underscore stripping\<close>

text \<open>
  Claim C9. For the name \<open>__foo__\<close> and a contract with leadingUnderscore allow,
  trailingUnderscore allow and format camelCase, one leading and one trailing underscore
  are stripped: the case check sees \<open>_foo_\<close>, which is not camelCase, and reports it.
\<close>

theorem C9_one_underscore_per_side:
  "case_checked_identifier eng TypeSelector_variable underscore_contract ''__foo__''
     = Inr ''_foo_'' \<and>
   \<not> isCamelCase ''_foo_'' \<and>
   check_contract eng TypeSelector_variable underscore_contract ''__foo__''
     = Inr [''variable name must be in camelCase'']"
  by (simp add: underscore_contract_def check_defs TypeSelector_name_variable OPTION_defs
      FAIL_defs case_defs)

section \<open>Formats that are no convention name\<close>

text \<open>
  Claim C10, as stated, fails for the empty string: it is none of the four names, but
  it is false for \<open>if (this._format)\<close>, so no case check runs and nothing is reported.
\<close>

theorem C10_empty_format_reports_nothing:
  "format empty_name_contract = Some (One '''') \<and>
   '''' \<notin> {PASCAL_OPTION, CAMEL_OPTION, SNAKE_OPTION, UPPER_OPTION} \<and>
   check_contract literal_engine TypeSelector_variable empty_name_contract ''foo'' = Inr []"
  by (simp add: empty_name_contract_def check_defs OPTION_defs)

text \<open>
  Claim C10, amended. If the case format of the contract is a non-empty string other
  than the four names, and the checker can be built (the regex of the contract, if any,
  compiles), then every checked identifier is reported with the format failure.
\<close>

theorem C10_unrecognized_format_always_fails:
  assumes "fmt \<noteq> []" and "fmt \<notin> {PASCAL_OPTION, CAMEL_OPTION, SNAKE_OPTION, UPPER_OPTION}"
    and "format contract = Some (One fmt)"
    and "case regex contract of None \<Rightarrow> True | Some src \<Rightarrow> src = [] \<or> rx_valid eng src"
  shows "\<exists>failures. check_contract eng ty contract name = Inr failures \<and>
           TypeSelector_name ty @ FORMAT_FAIL @ fmt \<in> set failures"
proof -
  have "\<exists>c. new_NameChecker eng ty contract = Inr c \<and> ck_format c = Some (One fmt) \<and>
          ck_type c = ty"
  proof (cases "regex contract")
    case None
    then show ?thesis
      using assms(3) by (simp add: new_NameChecker_def truthy_string_def)
  next
    case (Some src)
    then show ?thesis
      using assms(3,4) by (cases "src = []") (simp_all add: new_NameChecker_def truthy_string_def)
  qed
  then obtain c where c: "new_NameChecker eng ty contract = Inr c"
    and cf: "ck_format c = Some (One fmt)" and ct: "ck_type c = ty"
    by blast
  have "check_format c ident = [TypeSelector_name ty @ FORMAT_FAIL @ fmt]" for ident
    using assms(1,2) cf ct
    by (simp add: check_format_def truthy_option_def truthy_result_def matchesFormat_def
        failMessage_def)
  then have "TypeSelector_name ty @ FORMAT_FAIL @ fmt \<in> set (check eng c name)"
    by (cases "check_affixes eng c name") (simp add: check_def)
  with c show ?thesis
    by (simp add: check_contract_def)
qed

theorem C10_unrecognized_format_witness:
  "\<exists>failures. check_contract literal_engine TypeSelector_variable
       (empty_format\<lparr>format := Some (One ''kebab-case'')\<rparr>) ''fooBar'' = Inr failures \<and>
     ''variable name must be in kebab-case'' \<in> set failures"
  using C10_unrecognized_format_always_fails [of "''kebab-case''"
      "empty_format\<lparr>format := Some (One ''kebab-case'')\<rparr>" literal_engine
      TypeSelector_variable "''fooBar''"]
  by (simp add: OPTION_defs empty_format_def TypeSelector_name_variable FORMAT_FAIL_def)

section \<open>Specificity scores\<close>

lemmas table_defs = Types_table_def Modifiers_table_def Specifity_def Specifity_modifier_table_def
        Specifity_kind_table_def Specifity_filter_def

lemma kind_weights:
  "list_all (\<lambda>t. \<exists>w. Specifity t = Some w \<and> w mod 256 = 0) (map fst Types_table)"
  by (simp add: table_defs)

lemma kind_weight:
  assumes "Types t \<noteq> None"
  shows "\<exists>w. Specifity t = Some w \<and> w mod 256 = 0"
proof -
  from assms obtain v where "map_of Types_table t = Some v"
    by (auto simp: Types_def)
  then have "t \<in> set (map fst Types_table)"
    by (metis map_of_SomeD fst_conv image_eqI set_map)
  with kind_weights show ?thesis
    unfolding list_all_iff by blast
qed

lemma modifier_weights:
  "list_all (\<lambda>m. drop_bit 8 (ToInt32 (Specifity m)) = 0) (map fst Modifiers_table)"
  by (simp add: table_defs ToInt32_def)

lemma modifier_weight:
  assumes "Modifiers m \<noteq> None"
  shows "drop_bit 8 (ToInt32 (Specifity m)) = 0"
proof -
  from assms obtain v where "map_of Modifiers_table m = Some v"
    by (auto simp: Modifiers_def)
  then have "m \<in> set (map fst Modifiers_table)"
    by (metis map_of_SomeD fst_conv image_eqI set_map)
  with modifier_weights show ?thesis
    unfolding list_all_iff by blast
qed

lemma drop_bit_or_assign:
  "drop_bit 8 (ToInt32 (or_assign s v)) = drop_bit 8 (ToInt32 s) OR drop_bit 8 (ToInt32 v)"
  by (simp add: or_assign_def ToInt32_def drop_bit_or)

lemma or_assign_number: "or_assign s v \<noteq> None"
  by (simp add: or_assign_def)

lemma modifiers_loop_weight:
  assumes "\<forall>m\<in>set ms. Modifiers m \<noteq> None"
  shows "drop_bit 8 (ToInt32 (snd (modifiers_loop ms (m0, s)))) = drop_bit 8 (ToInt32 s)"
  using assms
proof (induction ms arbitrary: m0 s)
  case Nil
  then show ?case by simp
next
  case (Cons m ms)
  then have "Modifiers m \<noteq> None" and "\<forall>m\<in>set ms. Modifiers m \<noteq> None"
    by simp_all
  then show ?case
    using Cons.IH by (simp add: drop_bit_or_assign modifier_weight)
qed

lemma modifiers_loop_number:
  "snd (modifiers_loop ms (m0, Some v)) \<noteq> None"
  by (induction ms arbitrary: m0 v) (simp_all add: or_assign_def)

lemma new_NormalizedConfig_scan:
  "new_NormalizedConfig eng raw =
    (case filter_src raw of
       Some src \<Rightarrow>
         if rx_valid eng src
         then Inr \<lparr>nc_type = Types (type raw), nc_filter = Some src, nc_format = raw,
                   nc_modifiers = fst (scan_modifiers raw),
                   nc_specifity = or_assign (snd (scan_modifiers raw)) (Some Specifity_filter),
                   nc_final = final raw\<rparr>
         else Inl (SyntaxError src)
     | None \<Rightarrow>
         Inr \<lparr>nc_type = Types (type raw), nc_filter = None, nc_format = raw,
              nc_modifiers = fst (scan_modifiers raw), nc_specifity = snd (scan_modifiers raw),
              nc_final = final raw\<rparr>)"
  unfolding new_NormalizedConfig_def scan_modifiers_def Let_def case_prod_beta
  by (rule refl)

lemma scan_modifiers_weight:
  assumes "Types (type raw) \<noteq> None" and "\<forall>m\<in>set (modifier_names raw). Modifiers m \<noteq> None"
  shows "snd (scan_modifiers raw) \<noteq> None \<and>
    drop_bit 8 (ToInt32 (snd (scan_modifiers raw)))
      = drop_bit 8 (ToInt32 (Specifity (type raw)))"
proof -
  from kind_weight [OF assms(1)] obtain w where w: "Specifity (type raw) = Some w" by auto
  show ?thesis
  proof (cases "modifiers raw")
    case None
    then show ?thesis using w by (simp add: scan_modifiers_def)
  next
    case (Some oom)
    show ?thesis
    proof (cases oom)
      case (One m)
      with Some assms(2) have "Modifiers m \<noteq> None"
        by (simp add: modifier_names_def)
      with Some One show ?thesis
        by (simp add: scan_modifiers_def drop_bit_or_assign modifier_weight or_assign_number)
    next
      case (Many ms)
      with Some assms(2) have "\<forall>m\<in>set ms. Modifiers m \<noteq> None"
        by (simp add: modifier_names_def)
      with Some Many w show ?thesis
        by (simp add: scan_modifiers_def modifiers_loop_weight modifiers_loop_number)
    qed
  qed
qed

lemma normalized_weight:
  assumes "new_NormalizedConfig eng raw = Inr r"
    and "Types (type raw) \<noteq> None" and "\<forall>m\<in>set (modifier_names raw). Modifiers m \<noteq> None"
  shows "nc_specifity r \<noteq> None \<and>
    drop_bit 8 (ToInt32 (nc_specifity r)) = drop_bit 8 (ToInt32 (Specifity (type raw)))"
proof (cases "filter_src raw")
  case None
  with assms(1) have "nc_specifity r = snd (scan_modifiers raw)"
    by (auto simp: new_NormalizedConfig_scan)
  then show ?thesis
    using scan_modifiers_weight [OF assms(2,3)] by simp
next
  case (Some src)
  with assms(1) have "nc_specifity r = or_assign (snd (scan_modifiers raw)) (Some Specifity_filter)"
    by (auto simp: new_NormalizedConfig_scan split: if_splits)
  moreover have "drop_bit 8 (ToInt32 (Some Specifity_filter)) = 0"
    by (simp add: ToInt32_def Specifity_filter_def)
  ultimately show ?thesis
    using scan_modifiers_weight [OF assms(2,3)]
    by (simp add: drop_bit_or_assign or_assign_number)
qed

lemma all_weights_below_kinds:
  "\<forall>w\<in>set (map snd Specifity_kind_table). foldr (OR) (map snd Specifity_modifier_table) 0 < w"
  by (simp add: Specifity_kind_table_def Specifity_modifier_table_def Specifity_filter_def)

text \<open>
  Claim C7. Of two normalized rules whose kind names have different specificity weights,
  the one with the higher kind weight has the strictly greater score, whatever modifiers
  and filter the two rules carry: the bitwise or of all modifier weights and the filter
  weight is smaller than every kind weight. The kind names are names of \<open>Types\<close> and the
  modifier names are names of \<open>Modifiers\<close>, as the types of the configuration require.
\<close>

theorem C7_kind_outranks_modifiers:
  assumes "new_NormalizedConfig eng raw1 = Inr r1" and "new_NormalizedConfig eng raw2 = Inr r2"
    and "Types (type raw1) \<noteq> None" and "Types (type raw2) \<noteq> None"
    and "\<forall>m\<in>set (modifier_names raw1). Modifiers m \<noteq> None"
    and "\<forall>m\<in>set (modifier_names raw2). Modifiers m \<noteq> None"
    and "ToInt32 (Specifity (type raw1)) < ToInt32 (Specifity (type raw2))"
  shows "nc_specifity r1 \<noteq> None \<and> nc_specifity r2 \<noteq> None \<and>
    ToInt32 (nc_specifity r1) < ToInt32 (nc_specifity r2) \<and>
    (\<forall>w\<in>set (map snd Specifity_kind_table).
       foldr (OR) (map snd Specifity_modifier_table) 0 < w)"
proof -
  obtain w1 where w1: "Specifity (type raw1) = Some w1" "w1 mod 256 = 0"
    using kind_weight [OF assms(3)] by auto
  obtain w2 where w2: "Specifity (type raw2) = Some w2" "w2 mod 256 = 0"
    using kind_weight [OF assms(4)] by auto
  from assms(7) w1 w2 have "w1 < w2" by (simp add: ToInt32_def)
  moreover have "w1 = 256 * (w1 div 256)"
    using w1(2) mult_div_mod_eq [of 256 w1] by simp
  moreover have "w2 = 256 * (w2 div 256)"
    using w2(2) mult_div_mod_eq [of 256 w2] by simp
  ultimately have "w1 div 256 < w2 div 256" by linarith
  then have "drop_bit 8 (ToInt32 (Specifity (type raw1)))
      < drop_bit 8 (ToInt32 (Specifity (type raw2)))"
    using w1 w2 by (simp add: ToInt32_def drop_bit_eq_div)
  then have "drop_bit 8 (ToInt32 (nc_specifity r1)) < drop_bit 8 (ToInt32 (nc_specifity r2))"
    using normalized_weight [OF assms(1,3,5)] normalized_weight [OF assms(2,4,6)] by simp
  then have "ToInt32 (nc_specifity r1) div 256 < ToInt32 (nc_specifity r2) div 256"
    by (simp add: drop_bit_eq_div)
  then have lt: "ToInt32 (nc_specifity r1) < ToInt32 (nc_specifity r2)"
    using zdiv_mono1 [of "ToInt32 (nc_specifity r2)" "ToInt32 (nc_specifity r1)" 256]
    by linarith
  have "nc_specifity r1 \<noteq> None" and "nc_specifity r2 \<noteq> None"
    using normalized_weight [OF assms(1,3,5)] normalized_weight [OF assms(2,4,6)] by simp_all
  with lt all_weights_below_kinds show ?thesis
    by simp
qed

theorem C7_kind_outranks_modifiers_witness:
  "\<exists>r1 r2. new_NormalizedConfig literal_engine crowded_variable_rule = Inr r1 \<and>
     new_NormalizedConfig literal_engine bare_function_rule = Inr r2 \<and>
     nc_specifity r1 = Some 767 \<and> nc_specifity r2 = Some 768 \<and>
     ToInt32 (nc_specifity r1) < ToInt32 (nc_specifity r2)"
proof -
  have n1: "new_NormalizedConfig literal_engine crowded_variable_rule =
      Inr \<lparr>nc_type = Some 1, nc_filter = Some ''^X'', nc_format = crowded_variable_rule,
           nc_modifiers = Some 1939, nc_specifity = Some 767, nc_final = False\<rparr>"
    by (simp add: crowded_variable_rule_def walker_defs engine_defs)
  have n2: "new_NormalizedConfig literal_engine bare_function_rule =
      Inr \<lparr>nc_type = Some 2, nc_filter = None, nc_format = bare_function_rule,
           nc_modifiers = Some 0, nc_specifity = Some 768, nc_final = False\<rparr>"
    by (simp add: bare_function_rule_def walker_defs)
  have t: "Types (type crowded_variable_rule) \<noteq> None" "Types (type bare_function_rule) \<noteq> None"
    by (simp_all add: crowded_variable_rule_def bare_function_rule_def raw_rule_def Types_def Types_table_def)
  have m: "\<forall>m\<in>set (modifier_names crowded_variable_rule). Modifiers m \<noteq> None"
    "\<forall>m\<in>set (modifier_names bare_function_rule). Modifiers m \<noteq> None"
    by (simp_all add: crowded_variable_rule_def bare_function_rule_def raw_rule_def modifier_names_def Modifiers_def
        Modifiers_table_def)
  have w: "ToInt32 (Specifity (type crowded_variable_rule)) < ToInt32 (Specifity (type bare_function_rule))"
    by (simp add: crowded_variable_rule_def bare_function_rule_def raw_rule_def table_defs ToInt32_def)
  from C7_kind_outranks_modifiers [OF n1 n2 t m w] n1 n2 show ?thesis
    by simp
qed

section \<open>Malformed rules\<close>

lemma map_NormalizedConfig_fails:
  assumes "raw \<in> set rules" and "new_NormalizedConfig eng raw = Inl e"
  shows "\<exists>e'. map_NormalizedConfig eng rules = Inl e'"
  using assms
proof (induction rules)
  case Nil
  then show ?case by simp
next
  case (Cons rule rest)
  show ?case
  proof (cases "new_NormalizedConfig eng rule")
    case (Inl e1)
    then show ?thesis by simp
  next
    case (Inr r)
    with Cons.prems have "raw \<in> set rest" by auto
    with Cons.IH Cons.prems(2) obtain e' where "map_NormalizedConfig eng rest = Inl e'"
      by blast
    with Inr show ?thesis by simp
  qed
qed

lemma modifiers_loop_mask:
  "ToInt32 (fst (modifiers_loop ms (m, s)))
     = fold (\<lambda>x acc. acc OR ToInt32 (Modifiers x)) ms (ToInt32 m)"
  by (induction ms arbitrary: m s) (simp_all add: or_assign_def ToInt32_def)

lemma fold_known_modifiers:
  "fold (\<lambda>x acc. acc OR ToInt32 (Modifiers x)) (filter (\<lambda>m. Modifiers m \<noteq> None) ms) a
     = fold (\<lambda>x acc. acc OR ToInt32 (Modifiers x)) ms a"
  by (induction ms arbitrary: a) (auto simp: ToInt32_def)

lemma scan_known_modifiers:
  "ToInt32 (fst (scan_modifiers (known_modifiers raw))) = ToInt32 (fst (scan_modifiers raw))"
proof (cases "modifiers raw")
  case None
  then show ?thesis by (simp add: scan_modifiers_def known_modifiers_def)
next
  case (Some oom)
  show ?thesis
  proof (cases oom)
    case (One m)
    with Some show ?thesis
      by (auto simp: scan_modifiers_def known_modifiers_def ToInt32_def)
  next
    case (Many ms)
    with Some show ?thesis
      by (simp add: scan_modifiers_def known_modifiers_def modifiers_loop_mask
          fold_known_modifiers del: not_None_eq)
  qed
qed

lemma matches_cong:
  assumes "nc_final r = nc_final r'" and "nc_type r = nc_type r'"
    and "nc_filter r = nc_filter r'"
    and "ToInt32 (nc_modifiers r) = ToInt32 (nc_modifiers r')"
  shows "matches eng r ty mods name = matches eng r' ty mods name"
  using assms by (simp add: matches_def)

lemma matches_unknown_kind:
  assumes "nc_type r = None"
  shows "matches eng r ty mods name = (False, False)"
  using assms by (simp add: matches_def ToInt32_def)

text \<open>
  Claim C4, as stated, fails: a rule whose kind name is unknown is normalized without
  any failure, its kind mask is not a number, and it matches no declaration, so a
  variable that the rule was written for passes unreported. A rule with an unknown
  modifier name is normalized without failure too.
\<close>

theorem C4_unknown_names_are_accepted:
  "Types (type unknown_kind_rule) = None \<and>
   new_NormalizedConfig literal_engine unknown_kind_rule =
     Inr \<lparr>nc_type = None, nc_filter = None, nc_format = unknown_kind_rule,
          nc_modifiers = Some 0, nc_specifity = None, nc_final = False\<rparr> \<and>
   lint_statement literal_engine [unknown_kind_rule] 0 (variable_statement False ''myValue'')
     = Inr [] \<and>
   Modifiers ''mutable'' = None \<and>
   new_NormalizedConfig literal_engine unknown_modifier_rule =
     Inr \<lparr>nc_type = Some 1, nc_filter = None, nc_format = unknown_modifier_rule,
          nc_modifiers = None, nc_specifity = Some 512, nc_final = False\<rparr>"
  by (simp add: unknown_kind_rule_def unknown_modifier_rule_def walker_defs check_defs)

text \<open>
  Claim C4, amended. A raw rule whose filter is not a valid regex source fails when it
  is normalized, and so does the construction of the options of every rule list that
  contains it. A raw rule whose filter is absent or valid is normalized without failure
  whatever its kind and modifier names are: modifier names that are unknown are ignored
  by the matching, and with an unknown kind name the rule matches no declaration.
\<close>

theorem C4_malformed_rules:
  "(\<forall>src. filter_src raw = Some src \<and> \<not> rx_valid eng src \<longrightarrow>
      new_NormalizedConfig eng raw = Inl (SyntaxError src) \<and>
      (\<forall>rules. raw \<in> set rules \<longrightarrow> (\<exists>e. Rule_options eng rules = Inl e))) \<and>
   ((case filter_src raw of None \<Rightarrow> True | Some src \<Rightarrow> rx_valid eng src) \<longrightarrow>
      (\<exists>r r'. new_NormalizedConfig eng raw = Inr r \<and>
         new_NormalizedConfig eng (known_modifiers raw) = Inr r' \<and>
         (\<forall>ty mods name. matches eng r ty mods name = matches eng r' ty mods name) \<and>
         (Types (type raw) = None \<longrightarrow>
            (\<forall>ty mods name. matches eng r ty mods name = (False, False)))))"
proof (intro conjI allI impI)
  fix src
  assume a: "filter_src raw = Some src \<and> \<not> rx_valid eng src"
  then show n: "new_NormalizedConfig eng raw = Inl (SyntaxError src)"
    by (simp add: new_NormalizedConfig_scan)
  fix rules
  assume "raw \<in> set rules"
  from map_NormalizedConfig_fails [OF this n]
  show "\<exists>e. Rule_options eng rules = Inl e"
    by (auto simp: Rule_options_def Rule_options_on_def)
next
  assume v: "case filter_src raw of None \<Rightarrow> True | Some src \<Rightarrow> rx_valid eng src"
  have f: "filter_src (known_modifiers raw) = filter_src raw"
    "type (known_modifiers raw) = type raw" "final (known_modifiers raw) = final raw"
    by (simp_all add: known_modifiers_def)
  obtain r where r: "new_NormalizedConfig eng raw = Inr r"
    using v by (cases "filter_src raw") (simp_all add: new_NormalizedConfig_scan)
  obtain r' where r': "new_NormalizedConfig eng (known_modifiers raw) = Inr r'"
    using v f by (cases "filter_src raw") (simp_all add: new_NormalizedConfig_scan)
  have fields: "nc_final r = nc_final r'" "nc_type r = nc_type r'" "nc_filter r = nc_filter r'"
    "ToInt32 (nc_modifiers r) = ToInt32 (nc_modifiers r')" "nc_type r = Types (type raw)"
    using r r' f v scan_known_modifiers [of raw]
    by (cases "filter_src raw"; auto simp: new_NormalizedConfig_scan)+
  show "\<exists>r r'. new_NormalizedConfig eng raw = Inr r \<and>
         new_NormalizedConfig eng (known_modifiers raw) = Inr r' \<and>
         (\<forall>ty mods name. matches eng r ty mods name = matches eng r' ty mods name) \<and>
         (Types (type raw) = None \<longrightarrow>
            (\<forall>ty mods name. matches eng r ty mods name = (False, False)))"
    using r r' matches_cong [OF fields(1-4)] matches_unknown_kind [of r] fields(5)
    by auto
qed

theorem C4_malformed_rules_witness:
  "new_NormalizedConfig literal_engine invalid_filter_rule = Inl (SyntaxError ''('') \<and>
   (\<exists>e. Rule_options literal_engine [unknown_kind_rule, invalid_filter_rule] = Inl e) \<and>
   (\<exists>r. new_NormalizedConfig literal_engine unknown_kind_rule = Inr r \<and>
      matches literal_engine r TypeSelector_variable Modifiers_global ''myValue''
        = (False, False))"
proof -
  have i: "filter_src invalid_filter_rule = Some ''(''
      \<and> \<not> rx_valid literal_engine ''(''"
    by (simp add: invalid_filter_rule_def raw_rule_def engine_defs)
  have k: "filter_src unknown_kind_rule = None" "Types (type unknown_kind_rule) = None"
    by (simp_all add: unknown_kind_rule_def raw_rule_def Types_def Types_table_def)
  show ?thesis
    using C4_malformed_rules [of invalid_filter_rule literal_engine] i
      C4_malformed_rules [of unknown_kind_rule literal_engine] k
    by (auto simp: k)
qed

section \<open>Rules of equal specificity\<close>









lemma count_list_insert_behind:
  "count_list (array_insert_behind cmp x ys) z = count_list (x # ys) z"
  by (induction ys) auto

lemma set_insert_behind: "set (array_insert_behind cmp x ys) = insert x (set ys)"
  by (induction ys) auto

lemma sorted_insert_behind:
  assumes "nc_specifity x \<noteq> None" and "\<forall>y\<in>set ys. nc_specifity y \<noteq> None"
    and "sorted (map score ys)"
  shows "sorted (map score (array_insert_behind sort_cmp x ys))"
  using assms
  by (induction ys) (auto simp: sort_cmp_def score_def ToInt32_def set_insert_behind)

text \<open>
  \<open>reversing_sort\<close> is a sort: where all scores are numbers it returns the rules it was
  given, each as often as it was given, in ascending order of the score.
\<close>

lemma reversing_sort_sorts:
  assumes "\<forall>r\<in>set rs. nc_specifity r \<noteq> None"
  shows "sorted (map score (reversing_sort sort_cmp rs)) \<and>
    (\<forall>z. count_list (reversing_sort sort_cmp rs) z = count_list rs z) \<and>
    set (reversing_sort sort_cmp rs) = set rs"
  using assms
proof (induction rs)
  case Nil
  then show ?case by (simp add: reversing_sort_def)
next
  case (Cons r rs)
  then have ih: "sorted (map score (reversing_sort sort_cmp rs))"
    "\<forall>z. count_list (reversing_sort sort_cmp rs) z = count_list rs z"
    "set (reversing_sort sort_cmp rs) = set rs"
    by simp_all
  have step: "reversing_sort sort_cmp (r # rs)
      = array_insert_behind sort_cmp r (reversing_sort sort_cmp rs)"
    by (simp add: reversing_sort_def)
  have "sorted (map score (reversing_sort sort_cmp (r # rs)))"
    unfolding step using Cons.prems ih(1,3) by (intro sorted_insert_behind) simp_all
  moreover have "\<forall>z. count_list (reversing_sort sort_cmp (r # rs)) z = count_list (r # rs) z"
    unfolding step using ih(2) by (simp add: count_list_insert_behind)
  moreover have "set (reversing_sort sort_cmp (r # rs)) = set (r # rs)"
    unfolding step using ih(3) by (simp add: set_insert_behind)
  ultimately show ?case by blast
qed








end
